theory Spec2Isabelle
  imports Main
begin

section \<open>Data of \<^verbatim>\<open>src/App.jsx\<close>\<close>

text \<open>
  The component \<^verbatim>\<open>App\<close> keeps five pieces of React state and talks to two external
  services: Firebase Auth and the Firestore collection \<^verbatim>\<open>userProfiles\<close>.

  A JavaScript error is modelled by its \<^verbatim>\<open>message\<close>, the only field the component reads.
\<close>

datatype error = Error (message: string)

text \<open>
  The Firebase user object, with the four fields the component reads. A field that is
  \<^verbatim>\<open>null\<close> or \<^verbatim>\<open>undefined\<close> is \<open>None\<close>.
\<close>

record firebase_user =
  u_uid :: string
  u_email :: "string option"
  u_displayName :: "string option"
  u_photoURL :: "string option"

text \<open>
  A document of the collection \<^verbatim>\<open>userProfiles\<close>: the object literal with the keys
  \<^verbatim>\<open>uid, email, displayName, photoURL, createdAt, score\<close>. The fields carry the prefix
  \<open>p_\<close> because \<open>email\<close> is also a state variable of the component.
\<close>

record profile =
  p_uid :: string
  p_email :: "string option"
  p_displayName :: "string option"
  p_photoURL :: "string option"
  p_createdAt :: nat
  p_score :: int

text \<open>The external calls the component issues, and how each one ended.\<close>

datatype call =
    GetDoc string
  | SetDoc string profile
  | CreateUserWithEmailAndPassword string string
  | SignInWithEmailAndPassword string string
  | SignInWithPopup
  | SignInWithRedirect
  | GetRedirectResult
  | SignOut

datatype outcome = Returned | Threw string

text \<open>
  What the Auth Provider answers to each call. It is outside the repository, so its
  answers are a parameter of every handler.
\<close>

record auth =
  createUser_reply :: "string \<Rightarrow> string \<Rightarrow> error + firebase_user"
  signIn_reply :: "string \<Rightarrow> string \<Rightarrow> error + firebase_user"
  popup_reply :: "error + firebase_user"
  redirect_reply :: "error + unit"
  redirectResult_reply :: "error + firebase_user option"
  signOut_reply :: "error + unit"

text \<open>
  The state: the five \<^verbatim>\<open>useState\<close> variables of lines 23-27, the Document Store
  (\<open>docs\<close>, the collection \<^verbatim>\<open>userProfiles\<close> keyed by document id), the clock that
  \<^verbatim>\<open>new Date()\<close> reads, the script \<open>faults\<close> of the store (the next store call throws
  the message at the head, if there is one there), and two ghost fields: the log of
  external calls and the arguments \<^verbatim>\<open>uid\<close> of the invocations of \<^verbatim>\<open>fetchUserData\<close>.
\<close>

record state =
  user :: "firebase_user option"
  email :: string
  password :: string
  authMessage :: string
  userData :: "profile option"
  docs :: "string \<rightharpoonup> profile"
  now :: nat
  faults :: "string option list"
  calls :: "(call \<times> outcome) list"
  invocations :: "string list"

text \<open>
  An asynchronous function is a state transformer that either returns a value or throws;
  the state changes made before a throw stay. Each \<^verbatim>\<open>await\<close> is modelled as running
  the awaited call to its end: no other handler runs in between.
\<close>

type_synonym 'a io = "state \<Rightarrow> (error + 'a) \<times> state"

definition return_io :: "'a \<Rightarrow> 'a io" where
  "return_io v s = (Inr v, s)"

definition bind_io :: "'a io \<Rightarrow> ('a \<Rightarrow> 'b io) \<Rightarrow> 'b io" where
  "bind_io m f s = (case m s of (Inl e, s') \<Rightarrow> (Inl e, s') | (Inr v, s') \<Rightarrow> f v s')"

definition try_catch :: "'a io \<Rightarrow> (error \<Rightarrow> 'a io) \<Rightarrow> 'a io" where
  "try_catch body handler s =
     (case body s of (Inl e, s') \<Rightarrow> handler e s' | (Inr v, s') \<Rightarrow> (Inr v, s'))"

subsection \<open>JavaScript truthiness\<close>

text \<open>
  \<^verbatim>\<open>x || y\<close> on string-or-null values: \<^verbatim>\<open>null\<close>, \<^verbatim>\<open>undefined\<close> and the empty
  string are falsy.
\<close>

definition truthy :: "string option \<Rightarrow> bool" where
  "truthy v = (case v of None \<Rightarrow> False | Some x \<Rightarrow> x \<noteq> [])"

definition js_or :: "string option \<Rightarrow> string option \<Rightarrow> string option" where
  "js_or a b = (if truthy a then a else b)"

text \<open>\<^verbatim>\<open>x || null\<close>\<close>

definition or_null :: "string option \<Rightarrow> string option" where
  "or_null v = js_or v None"

text \<open>A value inside a template literal: \<^verbatim>\<open>null\<close> prints as the word null.\<close>

definition to_string :: "string option \<Rightarrow> string" where
  "to_string v = (case v of None \<Rightarrow> ''null'' | Some x \<Rightarrow> x)"

subsection \<open>State setters and external calls\<close>

definition setUser :: "firebase_user option \<Rightarrow> unit io" where
  "setUser u s = (Inr (), s\<lparr>user := u\<rparr>)"

definition setAuthMessage :: "string \<Rightarrow> unit io" where
  "setAuthMessage m s = (Inr (), s\<lparr>authMessage := m\<rparr>)"

definition setUserData :: "profile option \<Rightarrow> unit io" where
  "setUserData d s = (Inr (), s\<lparr>userData := d\<rparr>)"

definition setEmail :: "string \<Rightarrow> unit io" where
  "setEmail v s = (Inr (), s\<lparr>email := v\<rparr>)"

definition setPassword :: "string \<Rightarrow> unit io" where
  "setPassword v s = (Inr (), s\<lparr>password := v\<rparr>)"

text \<open>\<^verbatim>\<open>new Date()\<close>\<close>

definition newDate :: "nat io" where
  "newDate s = (Inr (now s), s)"

definition record_call :: "call \<Rightarrow> outcome \<Rightarrow> state \<Rightarrow> state" where
  "record_call c r s = s\<lparr>calls := calls s @ [(c, r)]\<rparr>"

definition pending_fault :: "state \<Rightarrow> string option" where
  "pending_fault s = (case faults s of [] \<Rightarrow> None | f # _ \<Rightarrow> f)"

text \<open>
  \<^verbatim>\<open>getDoc(doc(db, 'userProfiles', k))\<close>: the snapshot is \<open>None\<close> when
  \<^verbatim>\<open>exists()\<close> is false, and \<open>Some\<close> of \<^verbatim>\<open>data()\<close> otherwise.
\<close>

definition getDoc :: "string \<Rightarrow> profile option io" where
  "getDoc k s =
     (case pending_fault s of
        Some m \<Rightarrow> (Inl (Error m), record_call (GetDoc k) (Threw m) (s\<lparr>faults := tl (faults s)\<rparr>))
      | None \<Rightarrow> (Inr (docs s k), record_call (GetDoc k) Returned (s\<lparr>faults := tl (faults s)\<rparr>)))"

text \<open>\<^verbatim>\<open>setDoc(doc(db, 'userProfiles', k), v)\<close> overwrites the document wholesale.\<close>

definition setDoc :: "string \<Rightarrow> profile \<Rightarrow> unit io" where
  "setDoc k v s =
     (case pending_fault s of
        Some m \<Rightarrow> (Inl (Error m), record_call (SetDoc k v) (Threw m) (s\<lparr>faults := tl (faults s)\<rparr>))
      | None \<Rightarrow> (Inr (), record_call (SetDoc k v) Returned
                          (s\<lparr>faults := tl (faults s), docs := (docs s)(k \<mapsto> v)\<rparr>)))"

definition auth_call :: "call \<Rightarrow> error + 'a \<Rightarrow> 'a io" where
  "auth_call c r s =
     (r, record_call c (case r of Inl e \<Rightarrow> Threw (message e) | Inr _ \<Rightarrow> Returned) s)"

definition createUserWithEmailAndPassword :: "auth \<Rightarrow> string \<Rightarrow> string \<Rightarrow> firebase_user io" where
  "createUserWithEmailAndPassword A e p =
     auth_call (CreateUserWithEmailAndPassword e p) (createUser_reply A e p)"

definition signInWithEmailAndPassword :: "auth \<Rightarrow> string \<Rightarrow> string \<Rightarrow> firebase_user io" where
  "signInWithEmailAndPassword A e p =
     auth_call (SignInWithEmailAndPassword e p) (signIn_reply A e p)"

definition signInWithPopup :: "auth \<Rightarrow> firebase_user io" where
  "signInWithPopup A = auth_call SignInWithPopup (popup_reply A)"

definition signInWithRedirect :: "auth \<Rightarrow> unit io" where
  "signInWithRedirect A = auth_call SignInWithRedirect (redirect_reply A)"

definition getRedirectResult :: "auth \<Rightarrow> firebase_user option io" where
  "getRedirectResult A = auth_call GetRedirectResult (redirectResult_reply A)"

definition signOut :: "auth \<Rightarrow> unit io" where
  "signOut A = auth_call SignOut (signOut_reply A)"

section \<open>The handlers\<close>

text \<open>
  \<^verbatim>\<open>fetchUserData\<close>, lines 31-70. A falsy \<^verbatim>\<open>uid\<close> is the empty string: the only
  call site passes \<^verbatim>\<open>currentUser.uid\<close>, a string. The first step is ghost: it notes
  the invocation.
\<close>

definition note_invocation :: "string \<Rightarrow> unit io" where
  "note_invocation uid s = (Inr (), s\<lparr>invocations := invocations s @ [uid]\<rparr>)"

definition fetchUserData :: "string \<Rightarrow> firebase_user \<Rightarrow> unit io" where
  "fetchUserData uid currentUserObject =
     bind_io (note_invocation uid) (\<lambda>_.
     if uid = [] then
       bind_io (setAuthMessage ''No user logged in to fetch data.'') (\<lambda>_.
       setUserData None)
     else
       bind_io (setAuthMessage (''Fetching data for UID: '' @ uid @ ''...'')) (\<lambda>_.
       try_catch
         (bind_io (getDoc uid) (\<lambda>docSnap.
          case docSnap of
            Some d \<Rightarrow>
              bind_io (setUserData (Some d)) (\<lambda>_.
              setAuthMessage (''User data fetched for '' @ uid @ ''. Check console.''))
          | None \<Rightarrow>
              bind_io newDate (\<lambda>t.
              bind_io (setDoc uid
                 \<lparr>p_uid = uid,
                  p_email = or_null (u_email currentUserObject),
                  p_displayName = or_null (u_displayName currentUserObject),
                  p_photoURL = or_null (u_photoURL currentUserObject),
                  p_createdAt = t,
                  p_score = 0\<rparr>) (\<lambda>_.
              bind_io (getDoc uid) (\<lambda>newDocSnap.
              bind_io (setUserData newDocSnap) (\<lambda>_.
              setAuthMessage (''New profile created and fetched for '' @ uid @ ''.'')))))))
         (\<lambda>error.
            bind_io (setAuthMessage (''Firestore Data Error: '' @ message error)) (\<lambda>_.
            setUserData None))))"

text \<open>
  The callback given to \<^verbatim>\<open>onAuthStateChanged\<close>, lines 74-87. The source does not
  await \<^verbatim>\<open>fetchUserData\<close>; here it runs to its end before the callback returns.
\<close>

definition onAuthStateChanged_callback :: "firebase_user option \<Rightarrow> unit io" where
  "onAuthStateChanged_callback currentUser =
     bind_io (setUser currentUser) (\<lambda>_.
     case currentUser of
       Some cu \<Rightarrow>
         bind_io (setAuthMessage (''Logged in as: '' @
           to_string (js_or (js_or (u_email cu) (u_displayName cu)) (Some ''Anonymous'')))) (\<lambda>_.
         fetchUserData (u_uid cu) cu)
     | None \<Rightarrow>
         bind_io (setAuthMessage ''Not logged in'') (\<lambda>_.
         setUserData None))"

text \<open>\<^verbatim>\<open>handleRedirectResult\<close>, lines 91-118.\<close>

definition handleRedirectResult :: "auth \<Rightarrow> unit io" where
  "handleRedirectResult A =
     try_catch
       (bind_io (getRedirectResult A) (\<lambda>result.
        case result of
          None \<Rightarrow> return_io ()
        | Some usr \<Rightarrow>
            bind_io (setAuthMessage (''Successfully signed in with redirect: '' @
              to_string (js_or (u_email usr) (u_displayName usr)))) (\<lambda>_.
            bind_io (getDoc (u_uid usr)) (\<lambda>docSnap.
            case docSnap of
              Some _ \<Rightarrow> return_io ()
            | None \<Rightarrow>
                bind_io newDate (\<lambda>t.
                setDoc (u_uid usr)
                  \<lparr>p_uid = u_uid usr,
                   p_email = or_null (u_email usr),
                   p_displayName = or_null (u_displayName usr),
                   p_photoURL = or_null (u_photoURL usr),
                   p_createdAt = t,
                   p_score = 0\<rparr>)))))
       (\<lambda>error. setAuthMessage (''Redirect Sign In Error: '' @ message error))"

text \<open>\<^verbatim>\<open>handleSignUp\<close>, lines 128-149.\<close>

definition handleSignUp :: "auth \<Rightarrow> unit io" where
  "handleSignUp A s =
     bind_io (setAuthMessage ''Signing up...'') (\<lambda>_.
     try_catch
       (bind_io (createUserWithEmailAndPassword A (email s) (password s)) (\<lambda>userCredential.
        bind_io newDate (\<lambda>t.
        setDoc (u_uid userCredential)
          \<lparr>p_uid = u_uid userCredential,
           p_email = or_null (u_email userCredential),
           p_displayName = or_null (u_displayName userCredential),
           p_photoURL = or_null (u_photoURL userCredential),
           p_createdAt = t,
           p_score = 0\<rparr>)))
       (\<lambda>error. setAuthMessage (''Sign Up Error: '' @ message error))) s"

text \<open>\<^verbatim>\<open>handleSignIn\<close>, lines 151-161.\<close>

definition handleSignIn :: "auth \<Rightarrow> unit io" where
  "handleSignIn A s =
     bind_io (setAuthMessage ''Signing in...'') (\<lambda>_.
     try_catch
       (bind_io (signInWithEmailAndPassword A (email s) (password s)) (\<lambda>_. return_io ()))
       (\<lambda>error. setAuthMessage (''Sign In Error: '' @ message error))) s"

text \<open>\<^verbatim>\<open>handleGoogleSignInPopup\<close>, lines 163-188.\<close>

definition handleGoogleSignInPopup :: "auth \<Rightarrow> unit io" where
  "handleGoogleSignInPopup A =
     bind_io (setAuthMessage ''Signing in with Google (Popup)...'') (\<lambda>_.
     try_catch
       (bind_io (signInWithPopup A) (\<lambda>result.
        bind_io (getDoc (u_uid result)) (\<lambda>docSnap.
        case docSnap of
          Some _ \<Rightarrow> return_io ()
        | None \<Rightarrow>
            bind_io newDate (\<lambda>t.
            setDoc (u_uid result)
              \<lparr>p_uid = u_uid result,
               p_email = or_null (u_email result),
               p_displayName = or_null (u_displayName result),
               p_photoURL = or_null (u_photoURL result),
               p_createdAt = t,
               p_score = 0\<rparr>))))
       (\<lambda>error. setAuthMessage (''Google Sign In Error (Popup): '' @ message error)))"

text \<open>\<^verbatim>\<open>handleGoogleSignInRedirect\<close>, lines 191-202.\<close>

definition handleGoogleSignInRedirect :: "auth \<Rightarrow> unit io" where
  "handleGoogleSignInRedirect A =
     bind_io (setAuthMessage ''Redirecting for Google Sign In...'') (\<lambda>_.
     try_catch
       (signInWithRedirect A)
       (\<lambda>error. setAuthMessage (''Google Sign In Error (Redirect): '' @ message error)))"

text \<open>\<^verbatim>\<open>handleSignOut\<close>, lines 205-215.\<close>

definition handleSignOut :: "auth \<Rightarrow> unit io" where
  "handleSignOut A =
     bind_io (setAuthMessage ''Signing out...'') (\<lambda>_.
     try_catch
       (signOut A)
       (\<lambda>error. setAuthMessage (''Sign Out Error: '' @ message error)))"

section \<open>The component as an event-driven system\<close>

text \<open>
  The events the component reacts to: a notification of the auth-state subscription
  (line 74), the mount effect (lines 73-124, which calls \<^verbatim>\<open>handleRedirectResult\<close>), the
  two inputs (lines 232, 239) and the five buttons (lines 243-246, 254). The inputs and
  the four sign-in buttons are rendered only while \<^verbatim>\<open>user\<close> is null, the sign-out button
  only while it is not (line 225); an event on an element that is not rendered changes
  nothing.
\<close>

datatype event =
    AuthStateChanged "firebase_user option"
  | Mounted
  | EmailChanged string
  | PasswordChanged string
  | SignUpClicked
  | SignInClicked
  | GoogleSignInPopupClicked
  | GoogleSignInRedirectClicked
  | SignOutClicked

definition when_signed_out :: "unit io \<Rightarrow> unit io" where
  "when_signed_out h s = (if user s = None then h s else (Inr (), s))"

definition when_signed_in :: "unit io \<Rightarrow> unit io" where
  "when_signed_in h s = (if user s = None then (Inr (), s) else h s)"

definition dispatch :: "auth \<Rightarrow> event \<Rightarrow> unit io" where
  "dispatch A ev =
     (case ev of
        AuthStateChanged currentUser \<Rightarrow> onAuthStateChanged_callback currentUser
      | Mounted \<Rightarrow> handleRedirectResult A
      | EmailChanged v \<Rightarrow> when_signed_out (setEmail v)
      | PasswordChanged v \<Rightarrow> when_signed_out (setPassword v)
      | SignUpClicked \<Rightarrow> when_signed_out (handleSignUp A)
      | SignInClicked \<Rightarrow> when_signed_out (handleSignIn A)
      | GoogleSignInPopupClicked \<Rightarrow> when_signed_out (handleGoogleSignInPopup A)
      | GoogleSignInRedirectClicked \<Rightarrow> when_signed_out (handleGoogleSignInRedirect A)
      | SignOutClicked \<Rightarrow> when_signed_in (handleSignOut A))"

text \<open>
  \<open>run\<close> lets the handler of each event finish, through all its awaits, before the
  next event. The source also allows handlers to overlap at their awaits; those
  executions are not among the ones of \<open>run\<close>, and \<open>system_run\<close> below has them for
  \<^verbatim>\<open>fetchUserData\<close>.
\<close>

fun run :: "auth \<Rightarrow> event list \<Rightarrow> state \<Rightarrow> state" where
  "run A [] s = s"
| "run A (ev # evs) s = run A evs (snd (dispatch A ev s))"

text \<open>The non-null users of the notifications among the events, in order.\<close>

fun notified_users :: "event list \<Rightarrow> firebase_user list" where
  "notified_users [] = []"
| "notified_users (AuthStateChanged (Some u) # evs) = u # notified_users evs"
| "notified_users (_ # evs) = notified_users evs"

section \<open>\<^verbatim>\<open>fetchUserData\<close> between its awaits\<close>

text \<open>
  \<^verbatim>\<open>fetchUserData\<close> is an \<^verbatim>\<open>async\<close> function with three \<^verbatim>\<open>await\<close>s (lines 44, 53
  and 61), and the callback of line 74 calls it without awaiting it: the call returns
  at the first \<^verbatim>\<open>await\<close>, and the rest of the body runs when the awaited store call
  settles. An invocation suspended at an \<^verbatim>\<open>await\<close> is one of:
\<close>

datatype suspended =
    AwaitFirstGet string firebase_user
  | AwaitSet string profile
  | AwaitSecondGet string

text \<open>The catch block of lines 65-69.\<close>

definition fetchUserData_catch :: "error \<Rightarrow> state \<Rightarrow> state" where
  "fetchUserData_catch error s =
     snd (bind_io (setAuthMessage (''Firestore Data Error: '' @ message error)) (\<lambda>_.
          setUserData None) s)"

text \<open>Lines 32-44: from the call up to the first \<^verbatim>\<open>await\<close>.\<close>

definition fetchUserData_start :: "string \<Rightarrow> firebase_user \<Rightarrow> state \<Rightarrow> suspended option \<times> state" where
  "fetchUserData_start uid currentUserObject s =
     (let s1 = snd (note_invocation uid s) in
      if uid = [] then
        (None, snd (bind_io (setAuthMessage ''No user logged in to fetch data.'') (\<lambda>_.
                    setUserData None) s1))
      else
        (Some (AwaitFirstGet uid currentUserObject),
         snd (setAuthMessage (''Fetching data for UID: '' @ uid @ ''...'') s1)))"

text \<open>
  The awaited store call settles, and the body runs on to the next \<^verbatim>\<open>await\<close> or to
  its end.
\<close>

fun fetchUserData_resume :: "suspended \<Rightarrow> state \<Rightarrow> suspended option \<times> state" where
  "fetchUserData_resume (AwaitFirstGet uid currentUserObject) s =
     (case getDoc uid s of
        (Inl error, s1) \<Rightarrow> (None, fetchUserData_catch error s1)
      | (Inr (Some d), s1) \<Rightarrow>
          (None, snd (bind_io (setUserData (Some d)) (\<lambda>_.
                      setAuthMessage (''User data fetched for '' @ uid @ ''. Check console.'')) s1))
      | (Inr None, s1) \<Rightarrow>
          (Some (AwaitSet uid
             \<lparr>p_uid = uid,
              p_email = or_null (u_email currentUserObject),
              p_displayName = or_null (u_displayName currentUserObject),
              p_photoURL = or_null (u_photoURL currentUserObject),
              p_createdAt = now s1,
              p_score = 0\<rparr>), s1))"
| "fetchUserData_resume (AwaitSet uid v) s =
     (case setDoc uid v s of
        (Inl error, s1) \<Rightarrow> (None, fetchUserData_catch error s1)
      | (Inr _, s1) \<Rightarrow> (Some (AwaitSecondGet uid), s1))"
| "fetchUserData_resume (AwaitSecondGet uid) s =
     (case getDoc uid s of
        (Inl error, s1) \<Rightarrow> (None, fetchUserData_catch error s1)
      | (Inr newDocSnap, s1) \<Rightarrow>
          (None, snd (bind_io (setUserData newDocSnap) (\<lambda>_.
                      setAuthMessage (''New profile created and fetched for '' @ uid @ ''.'')) s1)))"

text \<open>An invocation that nothing interrupts: every awaited call settles at once.\<close>

fun settle_all :: "nat \<Rightarrow> suspended option \<times> state \<Rightarrow> state" where
  "settle_all n (None, s) = s"
| "settle_all 0 (Some t, s) = s"
| "settle_all (Suc n) (Some t, s) = settle_all n (fetchUserData_resume t s)"

text \<open>
  The component with its suspended invocations of \<^verbatim>\<open>fetchUserData\<close>. A notification
  runs the callback of lines 74-87 up to the first \<^verbatim>\<open>await\<close> of \<^verbatim>\<open>fetchUserData\<close>;
  \<open>Settled i\<close> lets the awaited call of the \<open>i\<close>-th suspended invocation settle.
\<close>

record system =
  component :: state
  in_flight :: "suspended list"

datatype system_event = Notified "firebase_user option" | Settled nat

definition notified :: "firebase_user option \<Rightarrow> system \<Rightarrow> system" where
  "notified currentUser sys =
     (case currentUser of
        Some cu \<Rightarrow>
          (let s1 = snd (bind_io (setUser currentUser) (\<lambda>_.
                 setAuthMessage (''Logged in as: '' @
                   to_string (js_or (js_or (u_email cu) (u_displayName cu)) (Some ''Anonymous''))))
                 (component sys));
               (t, s2) = fetchUserData_start (u_uid cu) cu s1
           in \<lparr>component = s2,
               in_flight = in_flight sys @ (case t of None \<Rightarrow> [] | Some x \<Rightarrow> [x])\<rparr>)
      | None \<Rightarrow>
          \<lparr>component = snd (bind_io (setUser currentUser) (\<lambda>_.
                 bind_io (setAuthMessage ''Not logged in'') (\<lambda>_.
                 setUserData None)) (component sys)),
           in_flight = in_flight sys\<rparr>)"

definition settled :: "nat \<Rightarrow> system \<Rightarrow> system" where
  "settled i sys =
     (if i < length (in_flight sys) then
        (let (t, s1) = fetchUserData_resume (in_flight sys ! i) (component sys)
         in \<lparr>component = s1,
             in_flight = take i (in_flight sys) @ (case t of None \<Rightarrow> [] | Some x \<Rightarrow> [x])
                         @ drop (Suc i) (in_flight sys)\<rparr>)
      else sys)"

fun system_step :: "system_event \<Rightarrow> system \<Rightarrow> system" where
  "system_step (Notified currentUser) sys = notified currentUser sys"
| "system_step (Settled i) sys = settled i sys"

fun system_run :: "system_event list \<Rightarrow> system \<Rightarrow> system" where
  "system_run [] sys = sys"
| "system_run (ev # evs) sys = system_run evs (system_step ev sys)"

section \<open>Observations on the log of external calls\<close>

text \<open>The external calls issued between two states.\<close>

definition new_calls :: "state \<Rightarrow> state \<Rightarrow> (call \<times> outcome) list" where
  "new_calls s s' = drop (length (calls s)) (calls s')"

definition is_store_call :: "call \<Rightarrow> bool" where
  "is_store_call c = (case c of GetDoc _ \<Rightarrow> True | SetDoc _ _ \<Rightarrow> True | _ \<Rightarrow> False)"

text \<open>
  Read-if-absent-else-create, checked along a log: \<open>D\<close> is the collection as the log
  proceeds and \<open>absent\<close> the keys that a read has returned as absent since their last
  write. A write is allowed only to such a key.
\<close>

fun upsert_only :: "(string \<rightharpoonup> profile) \<Rightarrow> string list \<Rightarrow> (call \<times> outcome) list \<Rightarrow> bool" where
  "upsert_only D absent [] = True"
| "upsert_only D absent ((GetDoc k, r) # cs) =
     upsert_only D (if r = Returned \<and> D k = None then k # absent else absent) cs"
| "upsert_only D absent ((SetDoc k v, r) # cs) =
     (k \<in> set absent \<and>
      upsert_only (if r = Returned then D(k \<mapsto> v) else D) (removeAll k absent) cs)"
| "upsert_only D absent (_ # cs) = upsert_only D absent cs"

section \<open>Sample data\<close>

text \<open>
  A user as the Auth Provider reports her, a profile of hers that already carries a
  score, a signed-out component over an empty collection, and a provider that accepts
  every call but the email/password sign-in.
\<close>

definition alice :: firebase_user where
  "alice = \<lparr>u_uid = ''u1'', u_email = Some ''a@x.io'', u_displayName = None, u_photoURL = Some []\<rparr>"

definition alice_profile :: profile where
  "alice_profile = \<lparr>p_uid = ''u1'', p_email = Some ''a@x.io'', p_displayName = None,
     p_photoURL = None, p_createdAt = 3, p_score = 5\<rparr>"

definition alice_created :: profile where
  "alice_created = \<lparr>p_uid = ''u1'', p_email = Some ''a@x.io'', p_displayName = None,
     p_photoURL = None, p_createdAt = 7, p_score = 0\<rparr>"

definition idle :: state where
  "idle = \<lparr>user = None, email = ''a@x.io'', password = ''secret'', authMessage = [],
     userData = None, docs = Map.empty, now = 7, faults = [], calls = [], invocations = []\<rparr>"

definition loaded :: state where
  "loaded = idle\<lparr>user := Some alice, userData := Some alice_profile,
     docs := [''u1'' \<mapsto> alice_profile]\<rparr>"

definition provider :: auth where
  "provider = \<lparr>createUser_reply = (\<lambda>e p. Inr alice),
     signIn_reply = (\<lambda>e p. Inl (Error ''wrong password'')),
     popup_reply = Inr alice,
     redirect_reply = Inr (),
     redirectResult_reply = Inr (Some alice),
     signOut_reply = Inr ()\<rparr>"

text \<open>A provider that rejects every call.\<close>

definition rejecting :: auth where
  "rejecting = \<lparr>createUser_reply = (\<lambda>e p. Inl (Error ''email already in use'')),
     signIn_reply = (\<lambda>e p. Inl (Error ''wrong password'')),
     popup_reply = Inl (Error ''popup closed by user''),
     redirect_reply = Inl (Error ''network request failed''),
     redirectResult_reply = Inl (Error ''credential already in use''),
     signOut_reply = Inl (Error ''internal error'')\<rparr>"

named_theorems io_defs

lemmas io_primitives [io_defs] =
  return_io_def bind_io_def try_catch_def setUser_def setAuthMessage_def
  setUserData_def setEmail_def setPassword_def newDate_def record_call_def pending_fault_def
  getDoc_def setDoc_def auth_call_def createUserWithEmailAndPassword_def
  signInWithEmailAndPassword_def signInWithPopup_def signInWithRedirect_def
  getRedirectResult_def signOut_def note_invocation_def


lemmas sample_defs = alice_def alice_profile_def alice_created_def idle_def
  provider_def truthy_def js_or_def or_null_def to_string_def

text \<open>What \<^verbatim>\<open>x || null\<close> keeps: a non-empty string, and nothing else.\<close>

lemma or_null_cases:
  "or_null None = None" "or_null (Some []) = None" "x \<noteq> [] \<Longrightarrow> or_null (Some x) = Some x"
  by (simp_all add: or_null_def js_or_def truthy_def)

section \<open>The profile-ensure routine\<close>

text \<open>
  Claim C1. For a brand-new identifier (a non-empty \<^verbatim>\<open>uid\<close> with no document under it in
  \<^verbatim>\<open>userProfiles\<close>) and a store whose three calls succeed, \<^verbatim>\<open>fetchUserData\<close> reads, then
  writes a profile made of the user record's email, display name and photo URL (each
  \<^verbatim>\<open>|| null\<close>), score 0 and the current time, then reads again, and the record it wrote
  is the one in the store and the one displayed as \<^verbatim>\<open>userData\<close>.
\<close>

theorem fetchUserData_creates_profile:
  assumes "uid \<noteq> []" and "docs s uid = None" and "set (take 3 (faults s)) \<subseteq> {None}"
  shows "let created = \<lparr>p_uid = uid, p_email = or_null (u_email cu),
                        p_displayName = or_null (u_displayName cu),
                        p_photoURL = or_null (u_photoURL cu),
                        p_createdAt = now s, p_score = 0\<rparr>;
             s' = snd (fetchUserData uid cu s)
         in fst (fetchUserData uid cu s) = Inr () \<and>
            new_calls s s' =
              [(GetDoc uid, Returned), (SetDoc uid created, Returned), (GetDoc uid, Returned)] \<and>
            docs s' uid = Some created \<and>
            userData s' = Some created \<and>
            authMessage s' = ''New profile created and fetched for '' @ uid @ ''.''"
  using assms
  by (cases "faults s"; cases "tl (faults s)"; cases "tl (tl (faults s))")
     (auto simp: fetchUserData_def io_defs new_calls_def numeral_3_eq_3)

theorem fetchUserData_creates_profile_witness:
  "''u1'' \<noteq> [] \<and> docs idle ''u1'' = None \<and> set (take 3 (faults idle)) \<subseteq> {None} \<and>
   userData (snd (fetchUserData ''u1'' alice idle)) =
     Some \<lparr>p_uid = ''u1'', p_email = Some ''a@x.io'', p_displayName = None,
           p_photoURL = None, p_createdAt = 7, p_score = 0\<rparr> \<and>
   docs (snd (fetchUserData ''u1'' alice idle)) ''u1'' =
     Some \<lparr>p_uid = ''u1'', p_email = Some ''a@x.io'', p_displayName = None,
           p_photoURL = None, p_createdAt = 7, p_score = 0\<rparr>"
proof -
  have h1: "''u1'' \<noteq> []" by simp
  have h2: "docs idle ''u1'' = None" by (simp add: idle_def)
  have h3: "set (take 3 (faults idle)) \<subseteq> {None}" by (simp add: idle_def)
  show ?thesis
    using h1 h2 h3 fetchUserData_creates_profile [OF h1 h2 h3, of alice]
    by (simp add: Let_def sample_defs)
qed

text \<open>
  Claim C3. When a document exists under \<^verbatim>\<open>uid\<close>, \<^verbatim>\<open>fetchUserData\<close> issues no
  \<^verbatim>\<open>setDoc\<close>: the collection is left as it was, and the only store call is the read of
  that document.
\<close>

theorem fetchUserData_existing_no_write:
  assumes "docs s uid = Some d"
  shows "docs (snd (fetchUserData uid cu s)) = docs s \<and>
         (\<forall>k v r. (SetDoc k v, r) \<notin> set (new_calls s (snd (fetchUserData uid cu s)))) \<and>
         set (map fst (new_calls s (snd (fetchUserData uid cu s)))) \<subseteq> {GetDoc uid}"
  using assms
  by (auto simp: fetchUserData_def io_defs new_calls_def split: option.splits list.splits)

theorem fetchUserData_existing_no_write_witness:
  "docs (idle\<lparr>docs := [''u1'' \<mapsto> alice_profile]\<rparr>) ''u1'' = Some alice_profile \<and>
   docs (snd (fetchUserData ''u1'' alice (idle\<lparr>docs := [''u1'' \<mapsto> alice_profile]\<rparr>)))
     = [''u1'' \<mapsto> alice_profile] \<and>
   new_calls (idle\<lparr>docs := [''u1'' \<mapsto> alice_profile]\<rparr>)
     (snd (fetchUserData ''u1'' alice (idle\<lparr>docs := [''u1'' \<mapsto> alice_profile]\<rparr>)))
     = [(GetDoc ''u1'', Returned)]"
proof -
  have h: "docs (idle\<lparr>docs := [''u1'' \<mapsto> alice_profile]\<rparr>) ''u1'' = Some alice_profile"
    by simp
  have c: "new_calls (idle\<lparr>docs := [''u1'' \<mapsto> alice_profile]\<rparr>)
     (snd (fetchUserData ''u1'' alice (idle\<lparr>docs := [''u1'' \<mapsto> alice_profile]\<rparr>)))
     = [(GetDoc ''u1'', Returned)]"
    by (simp add: fetchUserData_def io_defs new_calls_def idle_def)
  show ?thesis
    using h c fetchUserData_existing_no_write [OF h, of alice]
    by simp
qed

section \<open>Sign-in failure and sign-out\<close>

text \<open>
  Claim C5. When the email/password sign-in call fails, \<^verbatim>\<open>handleSignIn\<close> returns
  normally, leaves \<^verbatim>\<open>user\<close> as it was (it never assigns it) and sets the status to
  \<^verbatim>\<open>Sign In Error: \<close> followed by the failure's message.
\<close>

theorem handleSignIn_failure:
  assumes "signIn_reply A (email s) (password s) = Inl e"
  shows "fst (handleSignIn A s) = Inr () \<and>
         user (snd (handleSignIn A s)) = user s \<and>
         authMessage (snd (handleSignIn A s)) = ''Sign In Error: '' @ message e"
  using assms by (simp add: handleSignIn_def io_defs)

theorem handleSignIn_failure_witness:
  "signIn_reply provider (email idle) (password idle) = Inl (Error ''wrong password'') \<and>
   user (snd (handleSignIn provider idle)) = None \<and>
   authMessage (snd (handleSignIn provider idle)) = ''Sign In Error: wrong password''"
proof -
  have h: "signIn_reply provider (email idle) (password idle) = Inl (Error ''wrong password'')"
    by (simp add: provider_def)
  show ?thesis
    using h handleSignIn_failure [OF h]
    by (simp add: idle_def)
qed

text \<open>
  Claim C6. Whatever was loaded before, the auth-state notification with a null user
  sets \<^verbatim>\<open>user\<close> to null and \<^verbatim>\<open>userData\<close> to null.
\<close>

theorem null_notification_clears_profile:
  "user (snd (onAuthStateChanged_callback None s)) = None \<and>
   userData (snd (onAuthStateChanged_callback None s)) = None \<and>
   authMessage (snd (onAuthStateChanged_callback None s)) = ''Not logged in''"
  by (simp add: onAuthStateChanged_callback_def io_defs)

section \<open>Failures\<close>

text \<open>
  Claim C9. When a store call throws inside \<^verbatim>\<open>fetchUserData\<close>, \<^verbatim>\<open>userData\<close> ends as
  null, whatever was loaded before, and the status is \<^verbatim>\<open>Firestore Data Error: \<close>
  followed by the error's message.
\<close>

theorem fetchUserData_store_error:
  assumes "(c, Threw m) \<in> set (new_calls s (snd (fetchUserData uid cu s)))"
  shows "is_store_call c \<and>
         userData (snd (fetchUserData uid cu s)) = None \<and>
         authMessage (snd (fetchUserData uid cu s)) = ''Firestore Data Error: '' @ m"
  using assms
  by (auto simp: fetchUserData_def io_defs new_calls_def is_store_call_def
      split: option.splits list.splits if_splits)

theorem fetchUserData_store_error_witness:
  "(GetDoc ''u1'', Threw ''unavailable'')
     \<in> set (new_calls (loaded\<lparr>faults := [Some ''unavailable'']\<rparr>)
          (snd (fetchUserData ''u1'' alice (loaded\<lparr>faults := [Some ''unavailable'']\<rparr>)))) \<and>
   userData (loaded\<lparr>faults := [Some ''unavailable'']\<rparr>) = Some alice_profile \<and>
   userData (snd (fetchUserData ''u1'' alice (loaded\<lparr>faults := [Some ''unavailable'']\<rparr>))) = None \<and>
   authMessage (snd (fetchUserData ''u1'' alice (loaded\<lparr>faults := [Some ''unavailable'']\<rparr>)))
     = ''Firestore Data Error: unavailable''"
proof -
  have h: "(GetDoc ''u1'', Threw ''unavailable'')
     \<in> set (new_calls (loaded\<lparr>faults := [Some ''unavailable'']\<rparr>)
          (snd (fetchUserData ''u1'' alice (loaded\<lparr>faults := [Some ''unavailable'']\<rparr>))))"
    by (simp add: fetchUserData_def io_defs new_calls_def loaded_def idle_def)
  have l: "userData (loaded\<lparr>faults := [Some ''unavailable'']\<rparr>) = Some alice_profile"
    by (simp add: loaded_def)
  show ?thesis
    using h l fetchUserData_store_error [OF h]
    by simp
qed

lemma failing_handleSignUp:
  "fst (handleSignUp A s) = Inr () \<and>
   (\<forall>e. createUser_reply A (email s) (password s) = Inl e \<longrightarrow>
      authMessage (snd (handleSignUp A s)) = ''Sign Up Error: '' @ message e) \<and>
   (\<forall>u m. createUser_reply A (email s) (password s) = Inr u \<and> pending_fault s = Some m \<longrightarrow>
      authMessage (snd (handleSignUp A s)) = ''Sign Up Error: '' @ m) \<and>
   (\<forall>c m. (c, Threw m) \<in> set (new_calls s (snd (handleSignUp A s))) \<longrightarrow>
      authMessage (snd (handleSignUp A s)) = ''Sign Up Error: '' @ m)"
  by (auto simp: handleSignUp_def io_defs new_calls_def
      split: option.splits list.splits sum.splits)

lemma failing_handleSignIn:
  "fst (handleSignIn A s) = Inr () \<and>
   (\<forall>e. signIn_reply A (email s) (password s) = Inl e \<longrightarrow>
      authMessage (snd (handleSignIn A s)) = ''Sign In Error: '' @ message e) \<and>
   (\<forall>c m. (c, Threw m) \<in> set (new_calls s (snd (handleSignIn A s))) \<longrightarrow>
      authMessage (snd (handleSignIn A s)) = ''Sign In Error: '' @ m)"
  by (auto simp: handleSignIn_def io_defs new_calls_def split: sum.splits)

lemma failing_handleGoogleSignInPopup:
  "fst (handleGoogleSignInPopup A s) = Inr () \<and>
   (\<forall>e. popup_reply A = Inl e \<longrightarrow>
      authMessage (snd (handleGoogleSignInPopup A s)) =
        ''Google Sign In Error (Popup): '' @ message e) \<and>
   (\<forall>u m. popup_reply A = Inr u \<and> pending_fault s = Some m \<longrightarrow>
      authMessage (snd (handleGoogleSignInPopup A s)) = ''Google Sign In Error (Popup): '' @ m) \<and>
   (\<forall>u m fs. popup_reply A = Inr u \<and> docs s (u_uid u) = None \<and>
        faults s = None # Some m # fs \<longrightarrow>
      authMessage (snd (handleGoogleSignInPopup A s)) = ''Google Sign In Error (Popup): '' @ m) \<and>
   (\<forall>c m. (c, Threw m) \<in> set (new_calls s (snd (handleGoogleSignInPopup A s))) \<longrightarrow>
      authMessage (snd (handleGoogleSignInPopup A s)) = ''Google Sign In Error (Popup): '' @ m)"
  by (auto simp: handleGoogleSignInPopup_def io_defs new_calls_def
      split: option.splits list.splits sum.splits)

lemma failing_handleGoogleSignInRedirect:
  "fst (handleGoogleSignInRedirect A s) = Inr () \<and>
   (\<forall>e. redirect_reply A = Inl e \<longrightarrow>
      authMessage (snd (handleGoogleSignInRedirect A s)) =
        ''Google Sign In Error (Redirect): '' @ message e) \<and>
   (\<forall>c m. (c, Threw m) \<in> set (new_calls s (snd (handleGoogleSignInRedirect A s))) \<longrightarrow>
      authMessage (snd (handleGoogleSignInRedirect A s)) =
        ''Google Sign In Error (Redirect): '' @ m)"
  by (auto simp: handleGoogleSignInRedirect_def io_defs new_calls_def split: sum.splits)

lemma failing_handleSignOut:
  "fst (handleSignOut A s) = Inr () \<and>
   (\<forall>e. signOut_reply A = Inl e \<longrightarrow>
      authMessage (snd (handleSignOut A s)) = ''Sign Out Error: '' @ message e) \<and>
   (\<forall>c m. (c, Threw m) \<in> set (new_calls s (snd (handleSignOut A s))) \<longrightarrow>
      authMessage (snd (handleSignOut A s)) = ''Sign Out Error: '' @ m)"
  by (auto simp: handleSignOut_def io_defs new_calls_def split: sum.splits)

lemma failing_fetchUserData:
  "fst (fetchUserData uid cu s) = Inr () \<and>
   (\<forall>m. uid \<noteq> [] \<and> pending_fault s = Some m \<longrightarrow>
      authMessage (snd (fetchUserData uid cu s)) = ''Firestore Data Error: '' @ m) \<and>
   (\<forall>m fs. uid \<noteq> [] \<and> docs s uid = None \<and> faults s = None # Some m # fs \<longrightarrow>
      authMessage (snd (fetchUserData uid cu s)) = ''Firestore Data Error: '' @ m) \<and>
   (\<forall>m fs. uid \<noteq> [] \<and> docs s uid = None \<and> faults s = None # None # Some m # fs \<longrightarrow>
      authMessage (snd (fetchUserData uid cu s)) = ''Firestore Data Error: '' @ m) \<and>
   (\<forall>c m. (c, Threw m) \<in> set (new_calls s (snd (fetchUserData uid cu s))) \<longrightarrow>
      authMessage (snd (fetchUserData uid cu s)) = ''Firestore Data Error: '' @ m)"
  by (auto simp: fetchUserData_def io_defs new_calls_def split: option.splits list.splits)

lemma failing_handleRedirectResult:
  "fst (handleRedirectResult A s) = Inr () \<and>
   (\<forall>e. redirectResult_reply A = Inl e \<longrightarrow>
      authMessage (snd (handleRedirectResult A s)) = ''Redirect Sign In Error: '' @ message e) \<and>
   (\<forall>u m. redirectResult_reply A = Inr (Some u) \<and> pending_fault s = Some m \<longrightarrow>
      authMessage (snd (handleRedirectResult A s)) = ''Redirect Sign In Error: '' @ m) \<and>
   (\<forall>u m fs. redirectResult_reply A = Inr (Some u) \<and> docs s (u_uid u) = None \<and>
        faults s = None # Some m # fs \<longrightarrow>
      authMessage (snd (handleRedirectResult A s)) = ''Redirect Sign In Error: '' @ m) \<and>
   (\<forall>c m. (c, Threw m) \<in> set (new_calls s (snd (handleRedirectResult A s))) \<longrightarrow>
      authMessage (snd (handleRedirectResult A s)) = ''Redirect Sign In Error: '' @ m)"
  by (auto simp: handleRedirectResult_def io_defs new_calls_def
      split: option.splits list.splits sum.splits)

text \<open>
  Claim C4. Each of the seven handlers returns normally in every state, so no failure
  reaches its caller. When its Auth Provider call rejects with an error, the status it
  leaves is the handler's prefix followed by the error's message; the same holds when
  one of its Document Store calls throws: its first store call (a fault is pending),
  its second (the script of the store is no fault, then a fault) or, in
  \<^verbatim>\<open>fetchUserData\<close>, its third. And whichever call the log shows as having thrown, the
  status is the prefix followed by that call's message.
\<close>

theorem failures_caught_and_displayed:
  "(fst (handleSignUp A s) = Inr () \<and>
    (\<forall>e. createUser_reply A (email s) (password s) = Inl e \<longrightarrow>
       authMessage (snd (handleSignUp A s)) = ''Sign Up Error: '' @ message e) \<and>
    (\<forall>u m. createUser_reply A (email s) (password s) = Inr u \<and> pending_fault s = Some m \<longrightarrow>
       authMessage (snd (handleSignUp A s)) = ''Sign Up Error: '' @ m) \<and>
    (\<forall>c m. (c, Threw m) \<in> set (new_calls s (snd (handleSignUp A s))) \<longrightarrow>
       authMessage (snd (handleSignUp A s)) = ''Sign Up Error: '' @ m)) \<and>
   (fst (handleSignIn A s) = Inr () \<and>
    (\<forall>e. signIn_reply A (email s) (password s) = Inl e \<longrightarrow>
       authMessage (snd (handleSignIn A s)) = ''Sign In Error: '' @ message e) \<and>
    (\<forall>c m. (c, Threw m) \<in> set (new_calls s (snd (handleSignIn A s))) \<longrightarrow>
       authMessage (snd (handleSignIn A s)) = ''Sign In Error: '' @ m)) \<and>
   (fst (handleGoogleSignInPopup A s) = Inr () \<and>
    (\<forall>e. popup_reply A = Inl e \<longrightarrow>
       authMessage (snd (handleGoogleSignInPopup A s)) =
         ''Google Sign In Error (Popup): '' @ message e) \<and>
    (\<forall>u m. popup_reply A = Inr u \<and> pending_fault s = Some m \<longrightarrow>
       authMessage (snd (handleGoogleSignInPopup A s)) = ''Google Sign In Error (Popup): '' @ m) \<and>
    (\<forall>u m fs. popup_reply A = Inr u \<and> docs s (u_uid u) = None \<and>
         faults s = None # Some m # fs \<longrightarrow>
       authMessage (snd (handleGoogleSignInPopup A s)) = ''Google Sign In Error (Popup): '' @ m) \<and>
    (\<forall>c m. (c, Threw m) \<in> set (new_calls s (snd (handleGoogleSignInPopup A s))) \<longrightarrow>
       authMessage (snd (handleGoogleSignInPopup A s)) = ''Google Sign In Error (Popup): '' @ m)) \<and>
   (fst (handleGoogleSignInRedirect A s) = Inr () \<and>
    (\<forall>e. redirect_reply A = Inl e \<longrightarrow>
       authMessage (snd (handleGoogleSignInRedirect A s)) =
         ''Google Sign In Error (Redirect): '' @ message e) \<and>
    (\<forall>c m. (c, Threw m) \<in> set (new_calls s (snd (handleGoogleSignInRedirect A s))) \<longrightarrow>
       authMessage (snd (handleGoogleSignInRedirect A s)) =
         ''Google Sign In Error (Redirect): '' @ m)) \<and>
   (fst (handleSignOut A s) = Inr () \<and>
    (\<forall>e. signOut_reply A = Inl e \<longrightarrow>
       authMessage (snd (handleSignOut A s)) = ''Sign Out Error: '' @ message e) \<and>
    (\<forall>c m. (c, Threw m) \<in> set (new_calls s (snd (handleSignOut A s))) \<longrightarrow>
       authMessage (snd (handleSignOut A s)) = ''Sign Out Error: '' @ m)) \<and>
   (fst (fetchUserData uid cu s) = Inr () \<and>
    (\<forall>m. uid \<noteq> [] \<and> pending_fault s = Some m \<longrightarrow>
       authMessage (snd (fetchUserData uid cu s)) = ''Firestore Data Error: '' @ m) \<and>
    (\<forall>m fs. uid \<noteq> [] \<and> docs s uid = None \<and> faults s = None # Some m # fs \<longrightarrow>
       authMessage (snd (fetchUserData uid cu s)) = ''Firestore Data Error: '' @ m) \<and>
    (\<forall>m fs. uid \<noteq> [] \<and> docs s uid = None \<and> faults s = None # None # Some m # fs \<longrightarrow>
       authMessage (snd (fetchUserData uid cu s)) = ''Firestore Data Error: '' @ m) \<and>
    (\<forall>c m. (c, Threw m) \<in> set (new_calls s (snd (fetchUserData uid cu s))) \<longrightarrow>
       authMessage (snd (fetchUserData uid cu s)) = ''Firestore Data Error: '' @ m)) \<and>
   (fst (handleRedirectResult A s) = Inr () \<and>
    (\<forall>e. redirectResult_reply A = Inl e \<longrightarrow>
       authMessage (snd (handleRedirectResult A s)) = ''Redirect Sign In Error: '' @ message e) \<and>
    (\<forall>u m. redirectResult_reply A = Inr (Some u) \<and> pending_fault s = Some m \<longrightarrow>
       authMessage (snd (handleRedirectResult A s)) = ''Redirect Sign In Error: '' @ m) \<and>
    (\<forall>u m fs. redirectResult_reply A = Inr (Some u) \<and> docs s (u_uid u) = None \<and>
         faults s = None # Some m # fs \<longrightarrow>
       authMessage (snd (handleRedirectResult A s)) = ''Redirect Sign In Error: '' @ m) \<and>
    (\<forall>c m. (c, Threw m) \<in> set (new_calls s (snd (handleRedirectResult A s))) \<longrightarrow>
       authMessage (snd (handleRedirectResult A s)) = ''Redirect Sign In Error: '' @ m))"
  apply (rule conjI, rule failing_handleSignUp)
  apply (rule conjI, rule failing_handleSignIn)
  apply (rule conjI, rule failing_handleGoogleSignInPopup)
  apply (rule conjI, rule failing_handleGoogleSignInRedirect)
  apply (rule conjI, rule failing_handleSignOut)
  apply (rule conjI, rule failing_fetchUserData)
  apply (rule failing_handleRedirectResult)
  done

theorem failures_caught_and_displayed_witness:
  "createUser_reply rejecting (email idle) (password idle) = Inl (Error ''email already in use'') \<and>
   fst (handleSignUp rejecting idle) = Inr () \<and>
   authMessage (snd (handleSignUp rejecting idle)) = ''Sign Up Error: email already in use'' \<and>
   signIn_reply rejecting (email idle) (password idle) = Inl (Error ''wrong password'') \<and>
   fst (handleSignIn rejecting idle) = Inr () \<and>
   authMessage (snd (handleSignIn rejecting idle)) = ''Sign In Error: wrong password'' \<and>
   popup_reply rejecting = Inl (Error ''popup closed by user'') \<and>
   fst (handleGoogleSignInPopup rejecting idle) = Inr () \<and>
   authMessage (snd (handleGoogleSignInPopup rejecting idle))
     = ''Google Sign In Error (Popup): popup closed by user'' \<and>
   redirect_reply rejecting = Inl (Error ''network request failed'') \<and>
   fst (handleGoogleSignInRedirect rejecting idle) = Inr () \<and>
   authMessage (snd (handleGoogleSignInRedirect rejecting idle))
     = ''Google Sign In Error (Redirect): network request failed'' \<and>
   signOut_reply rejecting = Inl (Error ''internal error'') \<and>
   fst (handleSignOut rejecting idle) = Inr () \<and>
   authMessage (snd (handleSignOut rejecting idle)) = ''Sign Out Error: internal error'' \<and>
   redirectResult_reply rejecting = Inl (Error ''credential already in use'') \<and>
   fst (handleRedirectResult rejecting idle) = Inr () \<and>
   authMessage (snd (handleRedirectResult rejecting idle))
     = ''Redirect Sign In Error: credential already in use'' \<and>
   ''u1'' \<noteq> [] \<and>
   pending_fault (idle\<lparr>faults := [Some ''unavailable'']\<rparr>) = Some ''unavailable'' \<and>
   fst (fetchUserData ''u1'' alice (idle\<lparr>faults := [Some ''unavailable'']\<rparr>)) = Inr () \<and>
   authMessage (snd (fetchUserData ''u1'' alice (idle\<lparr>faults := [Some ''unavailable'']\<rparr>)))
     = ''Firestore Data Error: unavailable'' \<and>
   createUser_reply provider (email (idle\<lparr>faults := [Some ''unavailable'']\<rparr>))
     (password (idle\<lparr>faults := [Some ''unavailable'']\<rparr>)) = Inr alice \<and>
   authMessage (snd (handleSignUp provider (idle\<lparr>faults := [Some ''unavailable'']\<rparr>)))
     = ''Sign Up Error: unavailable'' \<and>
   popup_reply provider = Inr alice \<and>
   docs (idle\<lparr>faults := [None, Some ''quota exceeded'']\<rparr>) (u_uid alice) = None \<and>
   faults (idle\<lparr>faults := [None, Some ''quota exceeded'']\<rparr>) = None # Some ''quota exceeded'' # [] \<and>
   authMessage (snd (handleGoogleSignInPopup provider
       (idle\<lparr>faults := [None, Some ''quota exceeded'']\<rparr>)))
     = ''Google Sign In Error (Popup): quota exceeded''"
proof -
  note rej = failures_caught_and_displayed [where A = rejecting and s = idle]
  note flt = failures_caught_and_displayed
    [where A = provider and s = "idle\<lparr>faults := [Some ''unavailable'']\<rparr>" and uid = "''u1''"
       and cu = alice]
  note snd_flt = failures_caught_and_displayed
    [where A = provider and s = "idle\<lparr>faults := [None, Some ''quota exceeded'']\<rparr>"]
  have h1: "createUser_reply rejecting (email idle) (password idle)
      = Inl (Error ''email already in use'')"
    by (simp add: rejecting_def)
  have h2: "signIn_reply rejecting (email idle) (password idle) = Inl (Error ''wrong password'')"
    by (simp add: rejecting_def)
  have h3: "popup_reply rejecting = Inl (Error ''popup closed by user'')"
    by (simp add: rejecting_def)
  have h4: "redirect_reply rejecting = Inl (Error ''network request failed'')"
    by (simp add: rejecting_def)
  have h5: "signOut_reply rejecting = Inl (Error ''internal error'')"
    by (simp add: rejecting_def)
  have h6: "redirectResult_reply rejecting = Inl (Error ''credential already in use'')"
    by (simp add: rejecting_def)
  have h7: "''u1'' \<noteq> []" by simp
  have h8: "pending_fault (idle\<lparr>faults := [Some ''unavailable'']\<rparr>) = Some ''unavailable''"
    by (simp add: pending_fault_def)
  have h9: "createUser_reply provider (email (idle\<lparr>faults := [Some ''unavailable'']\<rparr>))
     (password (idle\<lparr>faults := [Some ''unavailable'']\<rparr>)) = Inr alice"
    by (simp add: provider_def)
  have h10: "popup_reply provider = Inr alice"
    by (simp add: provider_def)
  have h11: "docs (idle\<lparr>faults := [None, Some ''quota exceeded'']\<rparr>) (u_uid alice) = None"
    by (simp add: idle_def)
  have h12: "faults (idle\<lparr>faults := [None, Some ''quota exceeded'']\<rparr>)
      = None # Some ''quota exceeded'' # []"
    by simp
  note signUp = rej [THEN conjunct1]
  note signIn = rej [THEN conjunct2, THEN conjunct1]
  note popup = rej [THEN conjunct2, THEN conjunct2, THEN conjunct1]
  note redirect = rej [THEN conjunct2, THEN conjunct2, THEN conjunct2, THEN conjunct1]
  note out = rej [THEN conjunct2, THEN conjunct2, THEN conjunct2, THEN conjunct2, THEN conjunct1]
  note result = rej [THEN conjunct2, THEN conjunct2, THEN conjunct2, THEN conjunct2,
    THEN conjunct2, THEN conjunct2]
  note fetch = flt [THEN conjunct2, THEN conjunct2, THEN conjunct2, THEN conjunct2,
    THEN conjunct2, THEN conjunct1]
  note signUp_store = flt [THEN conjunct1]
  note popup_store = snd_flt [THEN conjunct2, THEN conjunct2, THEN conjunct1]
  note r1 = signUp [THEN conjunct1]
  note r2 = signIn [THEN conjunct1]
  note r3 = popup [THEN conjunct1]
  note r4 = redirect [THEN conjunct1]
  note r5 = out [THEN conjunct1]
  note r6 = result [THEN conjunct1]
  note r7 = fetch [THEN conjunct1]
    note m1 = signUp [THEN conjunct2, THEN conjunct1, rule_format, OF h1]
    note m2 = signIn [THEN conjunct2, THEN conjunct1, rule_format, OF h2]
    note m3 = popup [THEN conjunct2, THEN conjunct1, rule_format, OF h3]
    note m4 = redirect [THEN conjunct2, THEN conjunct1, rule_format, OF h4]
    note m5 = out [THEN conjunct2, THEN conjunct1, rule_format, OF h5]
    note m6 = result [THEN conjunct2, THEN conjunct1, rule_format, OF h6]
    note m7 = fetch [THEN conjunct2, THEN conjunct1, rule_format, OF conjI [OF h7 h8]]
    note m8 = signUp_store [THEN conjunct2, THEN conjunct2, THEN conjunct1, rule_format, OF conjI [OF h9 h8]]
    note m9 = popup_store [THEN conjunct2, THEN conjunct2, THEN conjunct2, THEN conjunct1, rule_format, OF conjI [OF h10 conjI [OF h11 h12]]]
  from h1 h2 h3 h4 h5 h6 h7 h8 h9 h10 h11 h12 r1 r2 r3 r4 r5 r6 r7 m1 m2 m3 m4 m5 m6 m7 m8 m9
  show ?thesis by simp
qed

section \<open>Where profiles are written\<close>

lemma upsert_fetchUserData:
  "upsert_only (docs s) [] (new_calls s (snd (fetchUserData uid cu s)))"
  by (auto simp: fetchUserData_def io_defs new_calls_def split: option.splits list.splits)

lemma upsert_handleRedirectResult:
  "upsert_only (docs s) [] (new_calls s (snd (handleRedirectResult A s)))"
  by (auto simp: handleRedirectResult_def io_defs new_calls_def
      split: option.splits list.splits sum.splits)

lemma upsert_handleGoogleSignInPopup:
  "upsert_only (docs s) [] (new_calls s (snd (handleGoogleSignInPopup A s)))"
  by (auto simp: handleGoogleSignInPopup_def io_defs new_calls_def
      split: option.splits list.splits sum.splits)

lemma calls_handleSignUp:
  "createUser_reply A (email s) (password s) = Inr u \<Longrightarrow>
   map fst (new_calls s (snd (handleSignUp A s))) =
     [CreateUserWithEmailAndPassword (email s) (password s),
      SetDoc (u_uid u) \<lparr>p_uid = u_uid u, p_email = or_null (u_email u),
        p_displayName = or_null (u_displayName u), p_photoURL = or_null (u_photoURL u),
        p_createdAt = now s, p_score = 0\<rparr>]"
  by (auto simp: handleSignUp_def io_defs new_calls_def split: option.splits list.splits)

lemma resume_reaches_write:
  "fetchUserData_resume t s = (Some (AwaitSet k v), s1) \<Longrightarrow>
   (\<exists>c. t = AwaitFirstGet k c) \<and> docs s k = None \<and> new_calls s s1 = [(GetDoc k, Returned)]"
  by (cases t) (auto simp: fetchUserData_catch_def io_defs new_calls_def
      split: option.splits sum.splits list.splits if_splits)

lemma resume_writes:
  "(SetDoc k v, r) \<in> set (new_calls s (snd (fetchUserData_resume t s))) \<Longrightarrow> t = AwaitSet k v"
  by (cases t) (auto simp: fetchUserData_catch_def io_defs new_calls_def
      split: option.splits sum.splits list.splits if_splits)

text \<open>
  Claim C2 as stated fails twice. On the sign-up path \<^verbatim>\<open>handleSignUp\<close> issues its
  \<^verbatim>\<open>setDoc\<close> right after the account is created, and no read precedes it. And a
  profile is not created exactly once: after a sign-in, a sign-out and a second sign-in
  of a new user, each notified before the first \<^verbatim>\<open>getDoc\<close> has settled, both
  invocations of \<^verbatim>\<open>fetchUserData\<close> read the document as absent and both write it.
\<close>

theorem signUp_writes_without_read:
  "\<not> upsert_only (docs idle) [] (new_calls idle (snd (handleSignUp provider idle))) \<and>
   map fst (calls (component (system_run
      [Notified (Some alice), Notified None, Notified (Some alice),
       Settled 0, Settled 1, Settled 0, Settled 1]
      \<lparr>component = idle, in_flight = []\<rparr>))) =
     [GetDoc ''u1'', GetDoc ''u1'', SetDoc ''u1'' alice_created, SetDoc ''u1'' alice_created]"
  by (simp add: handleSignUp_def notified_def settled_def fetchUserData_start_def
      fetchUserData_catch_def io_defs new_calls_def sample_defs Let_def)

text \<open>
  Claim C2, amended. On the auth-state notification (\<^verbatim>\<open>fetchUserData\<close>), on the
  redirect result and on the popup sign-in, an invocation issues its write only after
  its own read of the same key has returned absent, and issues none when that read
  returns a document. For \<^verbatim>\<open>fetchUserData\<close> the same is stated between its awaits,
  whatever else runs in between: only an invocation suspended at its \<^verbatim>\<open>setDoc\<close>
  writes, and an invocation gets there only from its first read, when that read
  returns absent. The sign-up path is not an upsert: after a successful account
  creation it issues the write at once, with no read.
\<close>

theorem profile_upsert_except_signUp:
  "upsert_only (docs s) [] (new_calls s (snd (fetchUserData uid cu s))) \<and>
   upsert_only (docs s) [] (new_calls s (snd (handleRedirectResult A s))) \<and>
   upsert_only (docs s) [] (new_calls s (snd (handleGoogleSignInPopup A s))) \<and>
   (\<forall>k v s1. fetchUserData_resume t s = (Some (AwaitSet k v), s1) \<longrightarrow>
      (\<exists>c. t = AwaitFirstGet k c) \<and> docs s k = None \<and>
      new_calls s s1 = [(GetDoc k, Returned)]) \<and>
   (\<forall>k v r. (SetDoc k v, r) \<in> set (new_calls s (snd (fetchUserData_resume t s))) \<longrightarrow>
      t = AwaitSet k v) \<and>
   (createUser_reply A (email s) (password s) = Inr u \<longrightarrow>
      map fst (new_calls s (snd (handleSignUp A s))) =
        [CreateUserWithEmailAndPassword (email s) (password s),
         SetDoc (u_uid u) \<lparr>p_uid = u_uid u, p_email = or_null (u_email u),
           p_displayName = or_null (u_displayName u), p_photoURL = or_null (u_photoURL u),
           p_createdAt = now s, p_score = 0\<rparr>])"
  using upsert_fetchUserData [of s uid cu] upsert_handleRedirectResult [of s A]
    upsert_handleGoogleSignInPopup [of s A] resume_reaches_write [of t s]
    resume_writes [of _ _ _ s t] calls_handleSignUp [of A s u]
  by blast

theorem profile_upsert_except_signUp_witness:
  "fetchUserData_resume (AwaitFirstGet ''u1'' alice) idle =
     (Some (AwaitSet ''u1'' alice_created), idle\<lparr>calls := [(GetDoc ''u1'', Returned)]\<rparr>) \<and>
   docs idle ''u1'' = None \<and>
   new_calls idle (idle\<lparr>calls := [(GetDoc ''u1'', Returned)]\<rparr>) = [(GetDoc ''u1'', Returned)] \<and>
   (SetDoc ''u1'' alice_created, Returned)
     \<in> set (new_calls idle (snd (fetchUserData_resume (AwaitSet ''u1'' alice_created) idle))) \<and>
   createUser_reply provider (email idle) (password idle) = Inr alice \<and>
   map fst (new_calls idle (snd (handleSignUp provider idle))) =
     [CreateUserWithEmailAndPassword ''a@x.io'' ''secret'', SetDoc ''u1'' alice_created] \<and>
   map fst (new_calls idle (snd (handleGoogleSignInPopup provider idle))) =
     [SignInWithPopup, GetDoc ''u1'', SetDoc ''u1'' alice_created] \<and>
   upsert_only (docs idle) [] (new_calls idle (snd (handleGoogleSignInPopup provider idle))) \<and>
   map fst (new_calls idle (snd (handleRedirectResult provider idle))) =
     [GetRedirectResult, GetDoc ''u1'', SetDoc ''u1'' alice_created] \<and>
   upsert_only (docs idle) [] (new_calls idle (snd (handleRedirectResult provider idle))) \<and>
   map fst (new_calls idle (snd (fetchUserData ''u1'' alice idle))) =
     [GetDoc ''u1'', SetDoc ''u1'' alice_created, GetDoc ''u1''] \<and>
   upsert_only (docs idle) [] (new_calls idle (snd (fetchUserData ''u1'' alice idle)))"
proof -
  have h1: "fetchUserData_resume (AwaitFirstGet ''u1'' alice) idle =
     (Some (AwaitSet ''u1'' alice_created), idle\<lparr>calls := [(GetDoc ''u1'', Returned)]\<rparr>)"
    by (simp add: io_defs sample_defs)
  have h2: "(SetDoc ''u1'' alice_created, Returned)
     \<in> set (new_calls idle (snd (fetchUserData_resume (AwaitSet ''u1'' alice_created) idle)))"
    by (simp add: io_defs new_calls_def idle_def)
  have h3: "createUser_reply provider (email idle) (password idle) = Inr alice"
    by (simp add: provider_def)
  have p: "map fst (new_calls idle (snd (handleGoogleSignInPopup provider idle))) =
     [SignInWithPopup, GetDoc ''u1'', SetDoc ''u1'' alice_created]"
    by (simp add: handleGoogleSignInPopup_def io_defs new_calls_def sample_defs)
  have q: "map fst (new_calls idle (snd (handleRedirectResult provider idle))) =
     [GetRedirectResult, GetDoc ''u1'', SetDoc ''u1'' alice_created]"
    by (simp add: handleRedirectResult_def io_defs new_calls_def sample_defs)
  have f: "map fst (new_calls idle (snd (fetchUserData ''u1'' alice idle))) =
     [GetDoc ''u1'', SetDoc ''u1'' alice_created, GetDoc ''u1'']"
    by (simp add: fetchUserData_def io_defs new_calls_def sample_defs)
  note first = profile_upsert_except_signUp
    [where s = idle and A = provider and u = alice and t = "AwaitFirstGet ''u1'' alice"
       and uid = "''u1''" and cu = alice]
  note resumed = first [THEN conjunct2, THEN conjunct2, THEN conjunct2, THEN conjunct1,
    rule_format, OF h1]
  note a = resumed [THEN conjunct2]
  note w = first [THEN conjunct2, THEN conjunct2, THEN conjunct2, THEN conjunct2,
    THEN conjunct2, rule_format, OF h3]
  note u3 = first [THEN conjunct1]
  note u2 = first [THEN conjunct2, THEN conjunct1]
  note u = first [THEN conjunct2, THEN conjunct2, THEN conjunct1]
  from w have w': "map fst (new_calls idle (snd (handleSignUp provider idle))) =
     [CreateUserWithEmailAndPassword ''a@x.io'' ''secret'', SetDoc ''u1'' alice_created]"
    by (simp add: sample_defs)
  from h1 a h2 h3 w' p u q u2 f u3 show ?thesis by blast
qed

section \<open>The form handlers\<close>

lemma effects_handleSignUp:
  "user (snd (handleSignUp A s)) = user s \<and> userData (snd (handleSignUp A s)) = userData s \<and>
   map fst (new_calls s (snd (handleSignUp A s))) =
     CreateUserWithEmailAndPassword (email s) (password s) #
     (case createUser_reply A (email s) (password s) of
        Inl e \<Rightarrow> []
      | Inr u \<Rightarrow> [SetDoc (u_uid u) \<lparr>p_uid = u_uid u, p_email = or_null (u_email u),
          p_displayName = or_null (u_displayName u), p_photoURL = or_null (u_photoURL u),
          p_createdAt = now s, p_score = 0\<rparr>]) \<and>
   ((\<forall>c m. (c, Threw m) \<notin> set (new_calls s (snd (handleSignUp A s)))) \<longrightarrow>
      authMessage (snd (handleSignUp A s)) = ''Signing up...'')"
  by (auto simp: handleSignUp_def io_defs new_calls_def split: sum.splits option.splits list.splits)

lemma effects_handleSignIn:
  "user (snd (handleSignIn A s)) = user s \<and> userData (snd (handleSignIn A s)) = userData s \<and>
   docs (snd (handleSignIn A s)) = docs s \<and>
   map fst (new_calls s (snd (handleSignIn A s))) =
     [SignInWithEmailAndPassword (email s) (password s)] \<and>
   ((\<forall>c m. (c, Threw m) \<notin> set (new_calls s (snd (handleSignIn A s)))) \<longrightarrow>
      authMessage (snd (handleSignIn A s)) = ''Signing in...'')"
  by (auto simp: handleSignIn_def io_defs new_calls_def split: sum.splits)

lemma effects_handleGoogleSignInPopup:
  "user (snd (handleGoogleSignInPopup A s)) = user s \<and>
   userData (snd (handleGoogleSignInPopup A s)) = userData s \<and>
   map fst (new_calls s (snd (handleGoogleSignInPopup A s))) =
     SignInWithPopup #
     (case popup_reply A of
        Inl e \<Rightarrow> []
      | Inr u \<Rightarrow> GetDoc (u_uid u) #
          (if pending_fault s = None \<and> docs s (u_uid u) = None
           then [SetDoc (u_uid u) \<lparr>p_uid = u_uid u, p_email = or_null (u_email u),
             p_displayName = or_null (u_displayName u), p_photoURL = or_null (u_photoURL u),
             p_createdAt = now s, p_score = 0\<rparr>]
           else [])) \<and>
   ((\<forall>c m. (c, Threw m) \<notin> set (new_calls s (snd (handleGoogleSignInPopup A s)))) \<longrightarrow>
      authMessage (snd (handleGoogleSignInPopup A s)) = ''Signing in with Google (Popup)...'')"
  by (auto simp: handleGoogleSignInPopup_def io_defs new_calls_def
      split: sum.splits option.splits list.splits)

lemma effects_handleGoogleSignInRedirect:
  "user (snd (handleGoogleSignInRedirect A s)) = user s \<and>
   userData (snd (handleGoogleSignInRedirect A s)) = userData s \<and>
   docs (snd (handleGoogleSignInRedirect A s)) = docs s \<and>
   map fst (new_calls s (snd (handleGoogleSignInRedirect A s))) = [SignInWithRedirect] \<and>
   ((\<forall>c m. (c, Threw m) \<notin> set (new_calls s (snd (handleGoogleSignInRedirect A s)))) \<longrightarrow>
      authMessage (snd (handleGoogleSignInRedirect A s)) = ''Redirecting for Google Sign In...'')"
  by (auto simp: handleGoogleSignInRedirect_def io_defs new_calls_def split: sum.splits)

lemma effects_handleSignOut:
  "user (snd (handleSignOut A s)) = user s \<and> userData (snd (handleSignOut A s)) = userData s \<and>
   docs (snd (handleSignOut A s)) = docs s \<and>
   map fst (new_calls s (snd (handleSignOut A s))) = [SignOut] \<and>
   ((\<forall>c m. (c, Threw m) \<notin> set (new_calls s (snd (handleSignOut A s)))) \<longrightarrow>
      authMessage (snd (handleSignOut A s)) = ''Signing out...'')"
  by (auto simp: handleSignOut_def io_defs new_calls_def split: sum.splits)

text \<open>
  Claim C7 as stated fails: on a successful sign-up \<^verbatim>\<open>handleSignUp\<close> itself calls the
  Document Store.
\<close>

theorem signUp_performs_store_call:
  "\<not> list_all (\<lambda>cr. \<not> is_store_call (fst cr)) (new_calls idle (snd (handleSignUp provider idle)))"
  by (simp add: handleSignUp_def io_defs new_calls_def idle_def provider_def is_store_call_def)

text \<open>
  Claim C7, amended. Each of the five form handlers leaves \<^verbatim>\<open>user\<close> and
  \<^verbatim>\<open>userData\<close> as they were, issues its own Auth Provider call once and no other, and
  ends with its transient status when no call threw. \<^verbatim>\<open>handleSignIn\<close>,
  \<^verbatim>\<open>handleGoogleSignInRedirect\<close> and \<^verbatim>\<open>handleSignOut\<close> issue no store call and leave
  the collection as it was. \<^verbatim>\<open>handleSignUp\<close> writes the profile of the created user
  after a successful account creation, and \<^verbatim>\<open>handleGoogleSignInPopup\<close> reads the
  profile of the signed-in user and writes it when the read returns absent.
\<close>

theorem form_handlers_effects:
  "(user (snd (handleSignUp A s)) = user s \<and> userData (snd (handleSignUp A s)) = userData s \<and>
    map fst (new_calls s (snd (handleSignUp A s))) =
      CreateUserWithEmailAndPassword (email s) (password s) #
      (case createUser_reply A (email s) (password s) of
         Inl e \<Rightarrow> []
       | Inr u \<Rightarrow> [SetDoc (u_uid u) \<lparr>p_uid = u_uid u, p_email = or_null (u_email u),
           p_displayName = or_null (u_displayName u), p_photoURL = or_null (u_photoURL u),
           p_createdAt = now s, p_score = 0\<rparr>]) \<and>
    ((\<forall>c m. (c, Threw m) \<notin> set (new_calls s (snd (handleSignUp A s)))) \<longrightarrow>
       authMessage (snd (handleSignUp A s)) = ''Signing up...'')) \<and>
   (user (snd (handleSignIn A s)) = user s \<and> userData (snd (handleSignIn A s)) = userData s \<and>
    docs (snd (handleSignIn A s)) = docs s \<and>
    map fst (new_calls s (snd (handleSignIn A s))) =
      [SignInWithEmailAndPassword (email s) (password s)] \<and>
    ((\<forall>c m. (c, Threw m) \<notin> set (new_calls s (snd (handleSignIn A s)))) \<longrightarrow>
       authMessage (snd (handleSignIn A s)) = ''Signing in...'')) \<and>
   (user (snd (handleGoogleSignInPopup A s)) = user s \<and>
    userData (snd (handleGoogleSignInPopup A s)) = userData s \<and>
    map fst (new_calls s (snd (handleGoogleSignInPopup A s))) =
      SignInWithPopup #
      (case popup_reply A of
         Inl e \<Rightarrow> []
       | Inr u \<Rightarrow> GetDoc (u_uid u) #
           (if pending_fault s = None \<and> docs s (u_uid u) = None
            then [SetDoc (u_uid u) \<lparr>p_uid = u_uid u, p_email = or_null (u_email u),
              p_displayName = or_null (u_displayName u), p_photoURL = or_null (u_photoURL u),
              p_createdAt = now s, p_score = 0\<rparr>]
            else [])) \<and>
    ((\<forall>c m. (c, Threw m) \<notin> set (new_calls s (snd (handleGoogleSignInPopup A s)))) \<longrightarrow>
       authMessage (snd (handleGoogleSignInPopup A s)) = ''Signing in with Google (Popup)...'')) \<and>
   (user (snd (handleGoogleSignInRedirect A s)) = user s \<and>
    userData (snd (handleGoogleSignInRedirect A s)) = userData s \<and>
    docs (snd (handleGoogleSignInRedirect A s)) = docs s \<and>
    map fst (new_calls s (snd (handleGoogleSignInRedirect A s))) = [SignInWithRedirect] \<and>
    ((\<forall>c m. (c, Threw m) \<notin> set (new_calls s (snd (handleGoogleSignInRedirect A s)))) \<longrightarrow>
       authMessage (snd (handleGoogleSignInRedirect A s)) = ''Redirecting for Google Sign In...'')) \<and>
   (user (snd (handleSignOut A s)) = user s \<and> userData (snd (handleSignOut A s)) = userData s \<and>
    docs (snd (handleSignOut A s)) = docs s \<and>
    map fst (new_calls s (snd (handleSignOut A s))) = [SignOut] \<and>
    ((\<forall>c m. (c, Threw m) \<notin> set (new_calls s (snd (handleSignOut A s)))) \<longrightarrow>
       authMessage (snd (handleSignOut A s)) = ''Signing out...''))"
  apply (rule conjI, rule effects_handleSignUp)
  apply (rule conjI, rule effects_handleSignIn)
  apply (rule conjI, rule effects_handleGoogleSignInPopup)
  apply (rule conjI, rule effects_handleGoogleSignInRedirect)
  apply (rule effects_handleSignOut)
  done

theorem form_handlers_effects_witness:
  "map fst (new_calls idle (snd (handleSignUp provider idle))) =
     [CreateUserWithEmailAndPassword ''a@x.io'' ''secret'', SetDoc ''u1'' alice_created] \<and>
   user (snd (handleSignUp provider idle)) = None \<and>
   userData (snd (handleSignUp provider idle)) = None \<and>
   authMessage (snd (handleSignUp provider idle)) = ''Signing up...'' \<and>
   map fst (new_calls idle (snd (handleSignIn provider idle))) =
     [SignInWithEmailAndPassword ''a@x.io'' ''secret''] \<and>
   docs (snd (handleSignIn provider idle)) = Map.empty"
proof -
  have n: "new_calls idle (snd (handleSignUp provider idle)) =
     [(CreateUserWithEmailAndPassword ''a@x.io'' ''secret'', Returned),
      (SetDoc ''u1'' alice_created, Returned)]"
    by (simp add: handleSignUp_def io_defs new_calls_def sample_defs)
  then have h: "\<forall>c m. (c, Threw m) \<notin> set (new_calls idle (snd (handleSignUp provider idle)))"
    by simp
  note inst = form_handlers_effects [where A = provider and s = idle]
  from inst h have m: "authMessage (snd (handleSignUp provider idle)) = ''Signing up...''"
    by blast
  from inst have u: "user (snd (handleSignUp provider idle)) = user idle"
    and d: "userData (snd (handleSignUp provider idle)) = userData idle"
    and i: "map fst (new_calls idle (snd (handleSignIn provider idle))) =
      [SignInWithEmailAndPassword (email idle) (password idle)]"
    and k: "docs (snd (handleSignIn provider idle)) = docs idle"
    by blast+
  from n m u d i k show ?thesis by (simp add: idle_def)
qed

section \<open>The shape of the written profile\<close>

lemma shape_fetchUserData:
  "(SetDoc k v, r) \<in> set (new_calls s (snd (fetchUserData uid cu s))) \<Longrightarrow>
   k = uid \<and>
   v = \<lparr>p_uid = k, p_email = or_null (u_email cu),
        p_displayName = or_null (u_displayName cu), p_photoURL = or_null (u_photoURL cu),
        p_createdAt = now s, p_score = 0\<rparr>"
  by (auto simp: fetchUserData_def io_defs new_calls_def
      split: option.splits list.splits if_splits)

lemma shape_handleRedirectResult:
  "(SetDoc k v, r) \<in> set (new_calls s (snd (handleRedirectResult A s))) \<Longrightarrow>
   \<exists>u. redirectResult_reply A = Inr (Some u) \<and> k = u_uid u \<and>
     v = \<lparr>p_uid = k, p_email = or_null (u_email u),
          p_displayName = or_null (u_displayName u), p_photoURL = or_null (u_photoURL u),
          p_createdAt = now s, p_score = 0\<rparr>"
  by (auto simp: handleRedirectResult_def io_defs new_calls_def
      split: option.splits list.splits if_splits sum.splits)

lemma shape_handleSignUp:
  "(SetDoc k v, r) \<in> set (new_calls s (snd (handleSignUp A s))) \<Longrightarrow>
   \<exists>u. createUser_reply A (email s) (password s) = Inr u \<and> k = u_uid u \<and>
     v = \<lparr>p_uid = k, p_email = or_null (u_email u),
          p_displayName = or_null (u_displayName u), p_photoURL = or_null (u_photoURL u),
          p_createdAt = now s, p_score = 0\<rparr>"
  by (auto simp: handleSignUp_def io_defs new_calls_def
      split: option.splits list.splits if_splits sum.splits)

lemma shape_handleGoogleSignInPopup:
  "(SetDoc k v, r) \<in> set (new_calls s (snd (handleGoogleSignInPopup A s))) \<Longrightarrow>
   \<exists>u. popup_reply A = Inr u \<and> k = u_uid u \<and>
     v = \<lparr>p_uid = k, p_email = or_null (u_email u),
          p_displayName = or_null (u_displayName u), p_photoURL = or_null (u_photoURL u),
          p_createdAt = now s, p_score = 0\<rparr>"
  by (auto simp: handleGoogleSignInPopup_def io_defs new_calls_def
      split: option.splits list.splits if_splits sum.splits)

text \<open>
  Claim C10. Every \<^verbatim>\<open>setDoc\<close> issued at the four write sites (\<^verbatim>\<open>fetchUserData\<close>,
  \<^verbatim>\<open>handleRedirectResult\<close>, \<^verbatim>\<open>handleSignUp\<close>, \<^verbatim>\<open>handleGoogleSignInPopup\<close>) writes,
  under the key \<open>k\<close>, the same record: \<^verbatim>\<open>uid\<close> is \<open>k\<close>; \<^verbatim>\<open>email\<close>, \<^verbatim>\<open>displayName\<close>
  and \<^verbatim>\<open>photoURL\<close> are the user record's fields, null when the field is absent (or
  the empty string); \<^verbatim>\<open>createdAt\<close> is the current time and \<^verbatim>\<open>score\<close> is 0. The user
  record is the argument of \<^verbatim>\<open>fetchUserData\<close>, and for the other three the user the
  Auth Provider returned, whose \<^verbatim>\<open>uid\<close> is the key.
\<close>

theorem written_profiles_one_shape:
  "(\<forall>k v r. (SetDoc k v, r) \<in> set (new_calls s (snd (fetchUserData uid cu s))) \<longrightarrow>
      k = uid \<and>
      v = \<lparr>p_uid = k, p_email = or_null (u_email cu),
           p_displayName = or_null (u_displayName cu), p_photoURL = or_null (u_photoURL cu),
           p_createdAt = now s, p_score = 0\<rparr>) \<and>
   (\<forall>k v r. (SetDoc k v, r) \<in> set (new_calls s (snd (handleRedirectResult A s))) \<longrightarrow>
      (\<exists>u. redirectResult_reply A = Inr (Some u) \<and> k = u_uid u \<and>
         v = \<lparr>p_uid = k, p_email = or_null (u_email u),
              p_displayName = or_null (u_displayName u), p_photoURL = or_null (u_photoURL u),
              p_createdAt = now s, p_score = 0\<rparr>)) \<and>
   (\<forall>k v r. (SetDoc k v, r) \<in> set (new_calls s (snd (handleSignUp A s))) \<longrightarrow>
      (\<exists>u. createUser_reply A (email s) (password s) = Inr u \<and> k = u_uid u \<and>
         v = \<lparr>p_uid = k, p_email = or_null (u_email u),
              p_displayName = or_null (u_displayName u), p_photoURL = or_null (u_photoURL u),
              p_createdAt = now s, p_score = 0\<rparr>)) \<and>
   (\<forall>k v r. (SetDoc k v, r) \<in> set (new_calls s (snd (handleGoogleSignInPopup A s))) \<longrightarrow>
      (\<exists>u. popup_reply A = Inr u \<and> k = u_uid u \<and>
         v = \<lparr>p_uid = k, p_email = or_null (u_email u),
              p_displayName = or_null (u_displayName u), p_photoURL = or_null (u_photoURL u),
              p_createdAt = now s, p_score = 0\<rparr>))"
  using shape_fetchUserData [of _ _ _ s uid cu] shape_handleRedirectResult [of _ _ _ s A]
    shape_handleSignUp [of _ _ _ s A] shape_handleGoogleSignInPopup [of _ _ _ s A]
  by blast

theorem written_profiles_one_shape_witness:
  "(SetDoc ''u1'' alice_created, Returned)
     \<in> set (new_calls idle (snd (fetchUserData ''u1'' alice idle))) \<and>
   (SetDoc ''u1'' alice_created, Returned)
     \<in> set (new_calls idle (snd (handleRedirectResult provider idle))) \<and>
   (SetDoc ''u1'' alice_created, Returned)
     \<in> set (new_calls idle (snd (handleSignUp provider idle))) \<and>
   (SetDoc ''u1'' alice_created, Returned)
     \<in> set (new_calls idle (snd (handleGoogleSignInPopup provider idle))) \<and>
   alice_created =
     \<lparr>p_uid = ''u1'', p_email = or_null (u_email alice),
      p_displayName = or_null (u_displayName alice), p_photoURL = or_null (u_photoURL alice),
      p_createdAt = now idle, p_score = 0\<rparr>"
proof -
  have f: "(SetDoc ''u1'' alice_created, Returned)
     \<in> set (new_calls idle (snd (fetchUserData ''u1'' alice idle)))"
    by (simp add: fetchUserData_def io_defs new_calls_def sample_defs)
  have r: "(SetDoc ''u1'' alice_created, Returned)
     \<in> set (new_calls idle (snd (handleRedirectResult provider idle)))"
    by (simp add: handleRedirectResult_def io_defs new_calls_def sample_defs)
  have u: "(SetDoc ''u1'' alice_created, Returned)
     \<in> set (new_calls idle (snd (handleSignUp provider idle)))"
    by (simp add: handleSignUp_def io_defs new_calls_def sample_defs)
  have p: "(SetDoc ''u1'' alice_created, Returned)
     \<in> set (new_calls idle (snd (handleGoogleSignInPopup provider idle)))"
    by (simp add: handleGoogleSignInPopup_def io_defs new_calls_def sample_defs)
  from written_profiles_one_shape [where s = idle and uid = "''u1''" and cu = alice] f
  have "alice_created =
     \<lparr>p_uid = ''u1'', p_email = or_null (u_email alice),
      p_displayName = or_null (u_displayName alice), p_photoURL = or_null (u_photoURL alice),
      p_createdAt = now idle, p_score = 0\<rparr>"
    by blast
  with f r u p show ?thesis by blast
qed

section \<open>When the profile-ensure routine is invoked\<close>

lemma invocations_fetchUserData:
  "invocations (snd (fetchUserData uid cu s)) = invocations s @ [uid]"
  by (simp add: fetchUserData_def io_defs split: option.splits list.splits)

lemma invocations_onAuthStateChanged_callback:
  "invocations (snd (onAuthStateChanged_callback cu s)) =
     invocations s @ (case cu of None \<Rightarrow> [] | Some u \<Rightarrow> [u_uid u])"
  by (cases cu) (simp_all add: onAuthStateChanged_callback_def bind_io_def setUser_def
       setAuthMessage_def setUserData_def invocations_fetchUserData)

lemma invocations_handleRedirectResult:
  "invocations (snd (handleRedirectResult A s)) = invocations s"
  by (simp add: handleRedirectResult_def io_defs split: option.splits list.splits sum.splits)

lemma invocations_handleSignUp: "invocations (snd (handleSignUp A s)) = invocations s"
  by (simp add: handleSignUp_def io_defs split: option.splits list.splits sum.splits)

lemma invocations_handleSignIn: "invocations (snd (handleSignIn A s)) = invocations s"
  by (simp add: handleSignIn_def io_defs split: sum.splits)

lemma invocations_handleGoogleSignInPopup:
  "invocations (snd (handleGoogleSignInPopup A s)) = invocations s"
  by (simp add: handleGoogleSignInPopup_def io_defs split: option.splits list.splits sum.splits)

lemma invocations_handleGoogleSignInRedirect:
  "invocations (snd (handleGoogleSignInRedirect A s)) = invocations s"
  by (simp add: handleGoogleSignInRedirect_def io_defs split: sum.splits)

lemma invocations_handleSignOut: "invocations (snd (handleSignOut A s)) = invocations s"
  by (simp add: handleSignOut_def io_defs split: sum.splits)

lemma invocations_dispatch:
  "invocations (snd (dispatch A ev s)) = invocations s @ map u_uid (notified_users [ev])"
proof (cases ev)
  case (AuthStateChanged cu)
  then show ?thesis
    by (cases cu) (simp_all add: dispatch_def invocations_onAuthStateChanged_callback)
qed (simp_all add: dispatch_def when_signed_out_def when_signed_in_def setEmail_def
       setPassword_def invocations_handleRedirectResult invocations_handleSignUp
       invocations_handleSignIn invocations_handleGoogleSignInPopup
       invocations_handleGoogleSignInRedirect invocations_handleSignOut)

lemma notified_users_Cons: "notified_users (ev # evs) = notified_users [ev] @ notified_users evs"
  by (cases "ev # evs" rule: notified_users.cases) auto

lemma invocations_run:
  "invocations (run A evs s) = invocations s @ map u_uid (notified_users evs)"
proof (induction evs arbitrary: s)
  case Nil
  then show ?case by simp
next
  case (Cons ev evs)
  show ?case
    by (simp add: Cons.IH invocations_dispatch notified_users_Cons [of ev evs]
        del: notified_users.simps)
qed

lemma settle_all_fetchUserData:
  "settle_all 3 (fetchUserData_start uid cu s) = snd (fetchUserData uid cu s)"
  by (simp add: fetchUserData_start_def fetchUserData_def fetchUserData_catch_def io_defs
      numeral_3_eq_3 split: option.splits)

lemma invocations_fetchUserData_start:
  "invocations (snd (fetchUserData_start uid cu s)) = invocations s @ [uid]"
  by (simp add: fetchUserData_start_def io_defs Let_def)

lemma invocations_fetchUserData_resume:
  "invocations (snd (fetchUserData_resume t s)) = invocations s"
  by (cases t) (simp_all add: fetchUserData_catch_def io_defs split: option.splits sum.splits)

lemma invocations_system_step:
  "invocations (component (system_step ev sys)) =
     invocations (component sys) @
       (case ev of
          Notified cu \<Rightarrow> (case cu of None \<Rightarrow> [] | Some u \<Rightarrow> [u_uid u])
        | Settled i \<Rightarrow> [])"
proof (cases ev)
  case (Notified cu)
  show ?thesis
  proof (cases cu)
    case None
    with Notified show ?thesis by (simp add: notified_def io_defs)
  next
    case (Some u)
    have "invocations (snd (fetchUserData_start (u_uid u) u s1)) = invocations s1 @ [u_uid u]" for s1
      by (rule invocations_fetchUserData_start)
    with Notified Some show ?thesis
      by (simp add: notified_def io_defs split_beta Let_def)
  qed
next
  case (Settled i)
  then show ?thesis
    using invocations_fetchUserData_resume [of "in_flight sys ! i" "component sys"]
    by (simp add: settled_def split_beta Let_def)
qed

text \<open>
  Claim C8 as stated fails twice. A notification with a null user invokes
  \<^verbatim>\<open>fetchUserData\<close> not once but not at all; and the invocations are not sequential:
  the callback does not await \<^verbatim>\<open>fetchUserData\<close>, so after a sign-in, a sign-out and a
  second sign-in, each notified before the first \<^verbatim>\<open>getDoc\<close> has settled, two
  invocations are suspended at their first \<^verbatim>\<open>await\<close> at the same time.
\<close>

theorem fetchUserData_not_once_nor_sequential:
  "invocations (snd (onAuthStateChanged_callback None idle)) = [] \<and>
   in_flight (system_run [Notified (Some alice), Notified None, Notified (Some alice)]
      \<lparr>component = idle, in_flight = []\<rparr>)
     = [AwaitFirstGet ''u1'' alice, AwaitFirstGet ''u1'' alice]"
  by (simp add: onAuthStateChanged_callback_def notified_def fetchUserData_start_def io_defs
      idle_def alice_def Let_def)

text \<open>
  Claim C8, amended. In every execution \<^verbatim>\<open>fetchUserData\<close> is invoked exactly once for
  each auth-state notification that carries a user, with that user's \<^verbatim>\<open>uid\<close> and in
  the order of the notifications, not at all for a notification with a null user, and
  by nothing else: no form handler, no input and not the mount effect. That holds when
  every handler runs to its end before the next event, and step by step when
  invocations stay suspended at an \<^verbatim>\<open>await\<close>, where they may overlap.
\<close>

theorem fetchUserData_invoked_once_per_signed_in_notification:
  "invocations (run A evs s) = invocations s @ map u_uid (notified_users evs) \<and>
   invocations (component (system_step ev sys)) =
     invocations (component sys) @
       (case ev of
          Notified cu \<Rightarrow> (case cu of None \<Rightarrow> [] | Some u \<Rightarrow> [u_uid u])
        | Settled i \<Rightarrow> [])"
  using invocations_run [of A evs s] invocations_system_step [of ev sys]
  by (rule conjI)

end
